theory Spec2Isabelle
  imports Main
begin

section \<open>Data model of the Explore pane\<close>

text \<open>
  The module under study is the pane-level part of Grafana's Explore state: the action
  creators, the two thunks \<open>initializeExplore\<close> and \<open>refreshExplore\<close>, the reducer
  \<open>paneReducer\<close> and the comparator \<open>urlDiff\<close>. Types that the module only imports are
  represented by the fields and values this module touches.
\<close>

datatype ExploreId = left | right

text \<open>
  A JavaScript \<open>number\<close> is only stored and copied by this module (widths, panel ids,
  organisation ids); no arithmetic is done on it.
\<close>

type_synonym number = int

text \<open>A field declared \<open>T | null\<close> and optional: absent, null, or a value.\<close>

datatype 'a nullable = Undefined | Null | Value 'a

text \<open>Opaque collaborators' values, passed through unchanged.\<close>

type_synonym EventBusExtended = nat
type_synonym TimeZone = string
type_synonym DateTime = int
type_synonym LogLevel = string
type_synonym LogsDedupStrategy = string
type_synonym PanelData = string
type_synonym RichHistoryQuery = string
type_synonym DataSourceSelectItem = string

text \<open>
  A query: the reference id and the key may be missing; \<open>expr\<close> stands for the
  data-source-specific remainder of the query object.
\<close>

record DataQuery =
  refId :: "string option"
  key :: "string option"
  expr :: string

type_synonym HistoryItem = "int \<times> DataQuery"

record DataSourceApi =
  ds_name :: string

record RawTimeRange =
  from_raw :: string
  to_raw :: string

record TimeRange =
  from_abs :: DateTime
  to_abs :: DateTime
  raw :: RawTimeRange

text \<open>
  The URL-encoded view state. \<open>urlDiff\<close> guards the range with \<open>|| DEFAULT_RANGE\<close>,
  so the range may be absent at run time.
\<close>

record ExploreUrlState =
  datasource_u :: string
  queries_u :: "DataQuery list"
  range_u :: "RawTimeRange option"
  originPanelId_u :: "number nullable"

text \<open>
  The state of one pane. Only the fields this module reads or writes are named; every
  other field of the pane lives in the extension slot of the record, which the object
  spread \<open>{ ...state, f }\<close> (a record update) leaves alone.
\<close>

record ExploreItemState =
  initialized :: bool
  containerWidth :: number
  eventBridge :: EventBusExtended
  queries :: "DataQuery list"
  queryKeys :: "string list"
  range_s :: TimeRange
  datasourceInstance :: "DataSourceApi option"
  datasourceMissing :: bool
  history :: "HistoryItem list"
  dedupStrategy :: LogsDedupStrategy
  hiddenLogLevels :: "LogLevel list"
  logsHighlighterExpressions :: "string list option"
  queryResponse :: PanelData
  originPanelId :: "number nullable"

record UserState =
  orgId :: number
  timeZone :: TimeZone

record 'z StoreState =
  user :: UserState
  explore :: "ExploreId \<Rightarrow> 'z ExploreItemState_scheme"

subsection \<open>Actions and payloads\<close>

record ChangeSizePayload =
  exploreId :: ExploreId
  width :: number
  height :: number

record InitializeExplorePayload =
  exploreId_p :: ExploreId
  containerWidth_p :: number
  eventBridge_p :: EventBusExtended
  queries_p :: "DataQuery list"
  range_p :: TimeRange
  history_p :: "HistoryItem list"
  datasourceInstance_p :: "DataSourceApi option"
  originPanelId_p :: "number nullable"

text \<open>
  The plain actions. The first six are created in this module (the payloads of the small
  ones are the pane id and one value); \<open>setQueriesAction\<close> and
  \<open>richHistoryUpdatedAction\<close> are imported and dispatched here; \<open>otherAction\<close> is any
  action of another type, named by its type string.
\<close>

datatype action =
    changeSizeAction ChangeSizePayload
  | changeDedupStrategyAction ExploreId LogsDedupStrategy
  | highlightLogsExpressionAction ExploreId "string list"
  | initializeExploreAction InitializeExplorePayload
  | toggleLogLevelAction ExploreId "LogLevel list"
  | setUrlReplacedAction ExploreId
  | setQueriesAction ExploreId "DataQuery list"
  | richHistoryUpdatedAction "RichHistoryQuery list"
  | otherAction string

text \<open>
  What a thunk hands to \<open>dispatch\<close>: a plain action, or one of the thunks
  \<open>updateTime({exploreId, rawRange?})\<close>, \<open>runQueries(exploreId)\<close> and
  \<open>initializeExplore(exploreId, datasourceName, queries, range, containerWidth,
  eventBridge, originPanelId)\<close>.
\<close>

datatype dispatched =
    Act action
  | updateTime ExploreId "RawTimeRange option"
  | runQueries ExploreId
  | initializeExploreThunk ExploreId string "DataQuery list" TimeRange number
      EventBusExtended "number nullable"

fun isRunQueries :: "dispatched \<Rightarrow> bool" where
  "isRunQueries (runQueries _) = True"
| "isRunQueries _ = False"

subsection \<open>Imported collaborators\<close>

text \<open>
  The result of the asynchronous \<open>loadAndInitDatasource\<close>: a rejected promise is
  \<open>Inl\<close>, a resolved one carries the instance and its history.
\<close>

type_synonym load_error = string

record LoadResult =
  instance_l :: "DataSourceApi option"
  history_l :: "HistoryItem list"

text \<open>
  Everything the module imports from the rest of the application and calls: the four
  sub-reducers, the constructors of default values, the URL helpers, the query
  normalisers, the time helpers and the data source registry. None of them is part of
  this module, so the module is modelled with them as parameters; \<open>getExploreDatasources\<close>
  and \<open>getRichHistory\<close> read ambient configuration and are represented by what they
  return.
\<close>

record 'z deps =
  queryReducer :: "'z ExploreItemState_scheme \<Rightarrow> action \<Rightarrow> 'z ExploreItemState_scheme"
  datasourceReducer :: "'z ExploreItemState_scheme \<Rightarrow> action \<Rightarrow> 'z ExploreItemState_scheme"
  timeReducer :: "'z ExploreItemState_scheme \<Rightarrow> action \<Rightarrow> 'z ExploreItemState_scheme"
  historyReducer :: "'z ExploreItemState_scheme \<Rightarrow> action \<Rightarrow> 'z ExploreItemState_scheme"
  makeExplorePaneState :: "'z ExploreItemState_scheme"
  createEmptyQueryResponse :: PanelData
  getQueryKeys :: "DataQuery list \<Rightarrow> DataSourceApi option \<Rightarrow> string list"
  DEFAULT_RANGE :: RawTimeRange
  parseUrlState :: "string \<Rightarrow> ExploreUrlState"
  getUrlStateFromPaneState :: "'z ExploreItemState_scheme \<Rightarrow> ExploreUrlState"
  generateNewKeyAndAddRefIdIfMissing :: "DataQuery \<Rightarrow> DataQuery list \<Rightarrow> nat \<Rightarrow> DataQuery"
  ensureQueries :: "DataQuery list \<Rightarrow> DataQuery list"
  getTimeRangeFromUrl :: "RawTimeRange option \<Rightarrow> TimeZone \<Rightarrow> TimeRange"
  getTimeZone :: "UserState \<Rightarrow> TimeZone"
  getExploreDatasources :: "DataSourceSelectItem list"
  loadAndInitDatasource :: "number \<Rightarrow> string \<Rightarrow> load_error + LoadResult"
  getRichHistory :: "RichHistoryQuery list"

section \<open>The comparator \<open>urlDiff\<close>\<close>

text \<open>
  \<open>_.isEqual\<close> is deep structural equality on plain data, which is equality of the
  modelled values. \<open>x?.f\<close> is \<open>map_option f x\<close> (or \<open>Option.bind\<close> when the field is itself
  optional), and \<open>x || d\<close> on an object-or-absent \<open>x\<close> picks \<open>d\<close> exactly when \<open>x\<close> is
  absent.
\<close>

definition isEqual :: "'a \<Rightarrow> 'a \<Rightarrow> bool" where
  "isEqual a b = (a = b)"

fun orElse :: "'a option \<Rightarrow> 'a \<Rightarrow> 'a" where
  "orElse (Some x) d = x"
| "orElse None d = d"

record UrlDiff =
  datasource_d :: bool
  queries_d :: bool
  range_d :: bool

definition urlDiff ::
  "RawTimeRange \<Rightarrow> ExploreUrlState option \<Rightarrow> ExploreUrlState option \<Rightarrow> UrlDiff" where
  "urlDiff defaultRange oldUrlState currentUrlState =
     (let datasource = \<not> isEqual (map_option datasource_u currentUrlState)
                                  (map_option datasource_u oldUrlState);
          queries = \<not> isEqual (map_option queries_u currentUrlState)
                               (map_option queries_u oldUrlState);
          range = \<not> isEqual (orElse (Option.bind currentUrlState range_u) defaultRange)
                             (orElse (Option.bind oldUrlState range_u) defaultRange)
      in \<lparr>datasource_d = datasource, queries_d = queries, range_d = range\<rparr>)"

text \<open>
  The range of a view state as the specification words it: the state's own range, with
  the default range substituted when the state or its range is absent.
\<close>

definition resolvedRange :: "RawTimeRange \<Rightarrow> ExploreUrlState option \<Rightarrow> RawTimeRange" where
  "resolvedRange defaultRange s =
     (case s of
        None \<Rightarrow> defaultRange
      | Some u \<Rightarrow> (case range_u u of None \<Rightarrow> defaultRange | Some r \<Rightarrow> r))"

section \<open>The reducer \<open>paneReducer\<close>\<close>

text \<open>
  The reducer first runs the four sub-reducers, in this order, each on the state the
  previous one returned, then matches the pane-level actions. An absent state argument
  takes the default \<open>makeExplorePaneState()\<close>. The object spread
  \<open>{ ...state, f: v }\<close> is the record update \<open>state\<lparr>f := v\<rparr>\<close>; in the
  \<open>initializeExplore\<close> branch \<open>state.datasourceInstance\<close> is read from the state the
  sub-reducers returned, while the unqualified \<open>datasourceInstance\<close> is the payload's.
  \<open>Array.from\<close> copies the list, which is the same value.
\<close>

definition paneReducer ::
  "('z, 'm) deps_scheme \<Rightarrow> 'z ExploreItemState_scheme option \<Rightarrow> action
     \<Rightarrow> 'z ExploreItemState_scheme" where
  "paneReducer d state0 action =
     (let state = (case state0 of None \<Rightarrow> makeExplorePaneState d | Some s \<Rightarrow> s);
          state = queryReducer d state action;
          state = datasourceReducer d state action;
          state = timeReducer d state action;
          state = historyReducer d state action
      in case action of
           changeSizeAction payload \<Rightarrow>
             state\<lparr>containerWidth := width payload\<rparr>
         | highlightLogsExpressionAction _ expressions \<Rightarrow>
             state\<lparr>logsHighlighterExpressions := Some expressions\<rparr>
         | changeDedupStrategyAction _ strategy \<Rightarrow>
             state\<lparr>dedupStrategy := strategy\<rparr>
         | initializeExploreAction payload \<Rightarrow>
             state\<lparr>containerWidth := containerWidth_p payload,
                   eventBridge := eventBridge_p payload,
                   range_s := range_p payload,
                   queries := queries_p payload,
                   initialized := True,
                   queryKeys := getQueryKeys d (queries_p payload) (datasourceInstance state),
                   originPanelId := originPanelId_p payload,
                   datasourceInstance := datasourceInstance_p payload,
                   history := history_p payload,
                   datasourceMissing := (datasourceInstance_p payload = None),
                   queryResponse := createEmptyQueryResponse d,
                   logsHighlighterExpressions := None\<rparr>
         | toggleLogLevelAction _ levels \<Rightarrow>
             state\<lparr>hiddenLogLevels := levels\<rparr>
         | _ \<Rightarrow> state)"

text \<open>The state the four sub-reducers hand to the pane-level match (lines 224 to 227).\<close>

definition afterSubReducers ::
  "('z, 'm) deps_scheme \<Rightarrow> 'z ExploreItemState_scheme \<Rightarrow> action
     \<Rightarrow> 'z ExploreItemState_scheme" where
  "afterSubReducers d state action =
     historyReducer d (timeReducer d (datasourceReducer d (queryReducer d state action)
       action) action) action"


section \<open>Action creators and thunks\<close>

definition changeSize :: "ExploreId \<Rightarrow> number \<Rightarrow> number \<Rightarrow> action" where
  "changeSize eid h w = changeSizeAction \<lparr>exploreId = eid, width = w, height = h\<rparr>"

definition changeDedupStrategy :: "ExploreId \<Rightarrow> LogsDedupStrategy \<Rightarrow> action" where
  "changeDedupStrategy eid strategy = changeDedupStrategyAction eid strategy"

text \<open>
  A thunk receives \<open>dispatch\<close> and \<open>getState\<close>. Both thunks of this module call
  \<open>getState()\<close> only before their first \<open>dispatch\<close>, so what a thunk does is the
  sequence of its dispatches as a function of the store it starts from, and the store
  changes only through these dispatches. \<open>runThunk\<close> threads the store through them,
  for whatever the store does with a dispatched item.
\<close>

definition runThunk ::
  "('st \<Rightarrow> dispatched \<Rightarrow> 'st) \<Rightarrow> ('st \<Rightarrow> dispatched list) \<Rightarrow> 'st \<Rightarrow> 'st" where
  "runThunk dispatch thunk st = foldl dispatch st (thunk st)"

text \<open>
  \<open>initializeExplore\<close> awaits \<open>loadAndInitDatasource\<close> only when at least one data
  source is configured; a rejection there ends the thunk before anything is dispatched.
  \<open>if (instance)\<close> tests an object-or-undefined value.
\<close>

definition initializeExplore ::
  "('z, 'm) deps_scheme \<Rightarrow> ExploreId \<Rightarrow> string \<Rightarrow> DataQuery list \<Rightarrow> TimeRange \<Rightarrow> number
     \<Rightarrow> EventBusExtended \<Rightarrow> number nullable \<Rightarrow> 'z StoreState
     \<Rightarrow> load_error + dispatched list" where
  "initializeExplore d eid datasourceName qs rng w bridge origin st =
     (let exploreDatasources = getExploreDatasources d;
          loaded =
            (if length exploreDatasources \<ge> 1
             then (case loadAndInitDatasource d (orgId (user st)) datasourceName of
                     Inl e \<Rightarrow> Inl e
                   | Inr loadResult \<Rightarrow> Inr (instance_l loadResult, history_l loadResult))
             else Inr (None, []))
      in case loaded of
           Inl e \<Rightarrow> Inl e
         | Inr (inst, hist) \<Rightarrow>
             Inr ([Act (initializeExploreAction
                     \<lparr>exploreId_p = eid, containerWidth_p = w, eventBridge_p = bridge,
                      queries_p = qs, range_p = rng, history_p = hist,
                      datasourceInstance_p = inst, originPanelId_p = origin\<rparr>),
                   updateTime eid None]
                  @ (if inst \<noteq> None then [runQueries eid] else [])
                  @ [Act (richHistoryUpdatedAction (getRichHistory d))]))"

text \<open>
  The loop of \<open>refreshExplore\<close> that builds \<open>refreshQueries\<close>: the query at position
  \<open>index\<close> is passed to the generator together with the list built so far.
\<close>

fun refreshQueriesLoop ::
  "(DataQuery \<Rightarrow> DataQuery list \<Rightarrow> nat \<Rightarrow> DataQuery) \<Rightarrow> DataQuery list \<Rightarrow> nat
     \<Rightarrow> DataQuery list \<Rightarrow> DataQuery list" where
  "refreshQueriesLoop gen [] index refreshQueries = refreshQueries"
| "refreshQueriesLoop gen (query # rest) index refreshQueries =
     refreshQueriesLoop gen rest (Suc index)
       (refreshQueries @ [gen query refreshQueries index])"

definition refreshExplore ::
  "('z, 'm) deps_scheme \<Rightarrow> ExploreId \<Rightarrow> string \<Rightarrow> 'z StoreState \<Rightarrow> dispatched list" where
  "refreshExplore d eid urlQuery st =
     (let itemState = explore st eid in
      if \<not> initialized itemState then []
      else
        let urlState = parseUrlState d urlQuery;
            update = urlDiff (DEFAULT_RANGE d) (Some urlState)
                       (Some (getUrlStateFromPaneState d itemState));
            refreshQueries =
              refreshQueriesLoop (generateNewKeyAndAddRefIdIfMissing d) (queries_u urlState) 0 [];
            tz = getTimeZone d (user st);
            rng = getTimeRangeFromUrl d (range_u urlState) tz
        in if datasource_d update
           then [initializeExploreThunk eid (datasource_u urlState)
                   (ensureQueries d (queries_u urlState)) rng
                   (containerWidth itemState) (eventBridge itemState)
                   (originPanelId_u urlState)]
           else (if range_d update then [updateTime eid (Some (raw rng))] else [])
              @ (if queries_d update then [Act (setQueriesAction eid refreshQueries)] else [])
              @ (if queries_d update \<or> range_d update then [runQueries eid] else []))"

section \<open>A concrete instance of the collaborators\<close>

text \<open>
  The theorems below hold for every choice of the imported collaborators. To evaluate
  the module on concrete inputs, one instance of them is fixed here, following what the
  specification says about each.
\<close>

fun string_of_nat :: "nat \<Rightarrow> string" where
  "string_of_nat n =
     (if n < 10 then [''0123456789'' ! n]
      else string_of_nat (n div 10) @ [''0123456789'' ! (n mod 10)])"

text \<open>
  Modelled from the spec: \<open>getQueryKeys\<close> of \<open>app/core/utils/explore\<close>, which is not
  among the sources. The keys are "derived cache keys, one per query, recomputed
  whenever queries or the bound data source identity changes": the key of a query is
  made of the name of the bound data source (the query's own key when none is bound)
  and the query's position.
\<close>

definition demoGetQueryKeys :: "DataQuery list \<Rightarrow> DataSourceApi option \<Rightarrow> string list" where
  "demoGetQueryKeys qs inst =
     map (\<lambda>(i, q). (case inst of
                       Some ds \<Rightarrow> ds_name ds
                     | None \<Rightarrow> orElse (key q) ''undefined'') @ ''-'' @ string_of_nat i)
       (enumerate 0 qs)"

text \<open>
  Modelled from the spec: \<open>generateNewKeyAndAddRefIdIfMissing\<close> of
  \<open>app/core/utils/explore\<close>, which is not among the sources. It is to "assign a
  reference id deterministically (by position) if missing, without mutating ids that
  are already present and without colliding with ids already assigned earlier in the
  same list": the first letter no earlier query of the list uses.
\<close>

definition demoNextRefId :: "DataQuery list \<Rightarrow> string" where
  "demoNextRefId earlier =
     (case filter (\<lambda>c. Some c \<notin> set (map refId earlier))
             (map (\<lambda>c. [c]) ''ABCDEFGHIJKLMNOPQRSTUVWXYZ'') of
        [] \<Rightarrow> ''A''
      | c # _ \<Rightarrow> c)"

definition demoGenerate :: "DataQuery \<Rightarrow> DataQuery list \<Rightarrow> nat \<Rightarrow> DataQuery" where
  "demoGenerate target earlier index =
     target\<lparr>refId := Some (orElse (refId target) (demoNextRefId earlier)),
            key := Some (''Q-'' @ string_of_nat index)\<rparr>"

text \<open>
  Modelled from the spec: \<open>getUrlStateFromPaneState\<close> of \<open>./main\<close>, which is not among
  the sources: the "read-only projection" of a pane state "for round-tripping to the
  URL", that is the name of the bound data source, the queries, the raw range and the
  origin panel.
\<close>

definition demoGetUrlStateFromPaneState :: "ExploreItemState \<Rightarrow> ExploreUrlState" where
  "demoGetUrlStateFromPaneState pane =
     \<lparr>datasource_u = (case datasourceInstance pane of None \<Rightarrow> [] | Some ds \<Rightarrow> ds_name ds),
      queries_u = queries pane,
      range_u = Some (raw (range_s pane)),
      originPanelId_u = originPanelId pane\<rparr>"

definition demoDefaultRange :: RawTimeRange where
  "demoDefaultRange = \<lparr>from_raw = ''now-1h'', to_raw = ''now''\<rparr>"

text \<open>
  Modelled from the spec: the remaining collaborators, none of them among the sources.
  The sub-reducers return the state unchanged ("returns \<open>state\<close> unchanged for actions
  it does not recognize"); \<open>parseUrlState\<close> is the pure function that yields the view
  state \<open>u\<close> the URL encodes; \<open>getTimeRangeFromUrl\<close> keeps the raw range it resolves;
  one data source is configured and every name resolves to a handle of that name with an
  empty history. Of \<open>ensureQueries\<close> the specification says nothing; here it returns the
  list it is given.
\<close>

definition demoDeps :: "ExploreUrlState \<Rightarrow> unit deps" where
  "demoDeps u =
     \<lparr>queryReducer = (\<lambda>state _. state),
      datasourceReducer = (\<lambda>state _. state),
      timeReducer = (\<lambda>state _. state),
      historyReducer = (\<lambda>state _. state),
      makeExplorePaneState =
        \<lparr>initialized = False, containerWidth = 0, eventBridge = 0, queries = [],
         queryKeys = [],
         range_s = \<lparr>from_abs = 0, to_abs = 0, raw = demoDefaultRange\<rparr>,
         datasourceInstance = None, datasourceMissing = False, history = [],
         dedupStrategy = ''none'', hiddenLogLevels = [],
         logsHighlighterExpressions = None, queryResponse = ''NotStarted'',
         originPanelId = Undefined\<rparr>,
      createEmptyQueryResponse = ''NotStarted'',
      getQueryKeys = demoGetQueryKeys,
      DEFAULT_RANGE = demoDefaultRange,
      parseUrlState = (\<lambda>_. u),
      getUrlStateFromPaneState = demoGetUrlStateFromPaneState,
      generateNewKeyAndAddRefIdIfMissing = demoGenerate,
      ensureQueries = (\<lambda>qs. qs),
      getTimeRangeFromUrl =
        (\<lambda>r _. \<lparr>from_abs = 0, to_abs = 0, raw = orElse r demoDefaultRange\<rparr>),
      getTimeZone = timeZone,
      getExploreDatasources = [''A''],
      loadAndInitDatasource =
        (\<lambda>_ name. Inr \<lparr>instance_l = Some \<lparr>ds_name = name\<rparr>, history_l = []\<rparr>),
      getRichHistory = []\<rparr>"

text \<open>
  The pane of the specification's scenario: initialized with data source \<open>A\<close>, the one
  query with reference id \<open>A\<close>, and the range from \<open>now-1h\<close> to \<open>now\<close>. In the store it
  is the left pane; the right pane is the same pane before its initialization.
\<close>

definition demoQuery :: DataQuery where
  "demoQuery = \<lparr>refId = Some ''A'', key = None, expr = ''up''\<rparr>"

definition demoPane :: ExploreItemState where
  "demoPane =
     \<lparr>initialized = True, containerWidth = 800, eventBridge = 1, queries = [demoQuery],
      queryKeys = [''A-0''],
      range_s = \<lparr>from_abs = 0, to_abs = 0, raw = demoDefaultRange\<rparr>,
      datasourceInstance = Some \<lparr>ds_name = ''A''\<rparr>, datasourceMissing = False,
      history = [], dedupStrategy = ''none'', hiddenLogLevels = [],
      logsHighlighterExpressions = None, queryResponse = ''NotStarted'',
      originPanelId = Undefined\<rparr>"

definition demoStore :: "unit StoreState" where
  "demoStore =
     \<lparr>user = \<lparr>orgId = 1, timeZone = ''utc''\<rparr>,
      explore = (\<lambda>eid. case eid of left \<Rightarrow> demoPane
                                  | right \<Rightarrow> demoPane\<lparr>initialized := False\<rparr>)\<rparr>"

text \<open>
  View states a URL may encode for that pane: only the range changed; the range and the
  query changed; the data source changed.
\<close>

definition demoUrlRange :: ExploreUrlState where
  "demoUrlRange =
     \<lparr>datasource_u = ''A'', queries_u = [demoQuery],
      range_u = Some \<lparr>from_raw = ''now-6h'', to_raw = ''now''\<rparr>,
      originPanelId_u = Undefined\<rparr>"

definition demoUrlBoth :: ExploreUrlState where
  "demoUrlBoth =
     \<lparr>datasource_u = ''A'', queries_u = [demoQuery\<lparr>expr := ''rate(up[5m])''\<rparr>],
      range_u = Some \<lparr>from_raw = ''now-6h'', to_raw = ''now''\<rparr>,
      originPanelId_u = Undefined\<rparr>"

definition demoUrlDatasource :: ExploreUrlState where
  "demoUrlDatasource =
     \<lparr>datasource_u = ''B'', queries_u = [demoQuery\<lparr>refId := None\<rparr>],
      range_u = Some demoDefaultRange,
      originPanelId_u = Undefined\<rparr>"

text \<open>An \<open>initializeExplore\<close> payload that binds the pane to data source \<open>B\<close>.\<close>

definition demoInitB :: InitializeExplorePayload where
  "demoInitB =
     \<lparr>exploreId_p = left, containerWidth_p = 800, eventBridge_p = 1,
      queries_p = [demoQuery], range_p = \<lparr>from_abs = 0, to_abs = 0, raw = demoDefaultRange\<rparr>,
      history_p = [], datasourceInstance_p = Some \<lparr>ds_name = ''B''\<rparr>,
      originPanelId_p = Undefined\<rparr>"

section \<open>Auxiliary facts\<close>

text \<open>
  The reducer on a present state, in terms of the state the sub-reducers return, and the
  fields an \<open>initializeExplore\<close> action sets.
\<close>

lemma paneReducer_Some:
  "paneReducer d (Some s) a =
     (let state = afterSubReducers d s a in
      case a of
           changeSizeAction payload \<Rightarrow>
             state\<lparr>containerWidth := width payload\<rparr>
         | highlightLogsExpressionAction _ expressions \<Rightarrow>
             state\<lparr>logsHighlighterExpressions := Some expressions\<rparr>
         | changeDedupStrategyAction _ strategy \<Rightarrow>
             state\<lparr>dedupStrategy := strategy\<rparr>
         | initializeExploreAction payload \<Rightarrow>
             state\<lparr>containerWidth := containerWidth_p payload,
                   eventBridge := eventBridge_p payload,
                   range_s := range_p payload,
                   queries := queries_p payload,
                   initialized := True,
                   queryKeys := getQueryKeys d (queries_p payload) (datasourceInstance state),
                   originPanelId := originPanelId_p payload,
                   datasourceInstance := datasourceInstance_p payload,
                   history := history_p payload,
                   datasourceMissing := (datasourceInstance_p payload = None),
                   queryResponse := createEmptyQueryResponse d,
                   logsHighlighterExpressions := None\<rparr>
         | toggleLogLevelAction _ levels \<Rightarrow>
             state\<lparr>hiddenLogLevels := levels\<rparr>
         | _ \<Rightarrow> state)"
  by (simp add: paneReducer_def afterSubReducers_def Let_def)

lemma paneReducer_initialize_fields:
  "queryKeys (paneReducer d s0 (initializeExploreAction p)) =
     getQueryKeys d (queries_p p)
       (datasourceInstance (afterSubReducers d
          (case s0 of None \<Rightarrow> makeExplorePaneState d | Some s \<Rightarrow> s)
          (initializeExploreAction p)))"
  "queries (paneReducer d s0 (initializeExploreAction p)) = queries_p p"
  "initialized (paneReducer d s0 (initializeExploreAction p))"
  "datasourceInstance (paneReducer d s0 (initializeExploreAction p)) = datasourceInstance_p p"
  "datasourceMissing (paneReducer d s0 (initializeExploreAction p)) = (datasourceInstance_p p = None)"
  by (simp_all add: paneReducer_def afterSubReducers_def Let_def)

lemma demo_afterSubReducers [simp]: "afterSubReducers (demoDeps u) s a = s"
  by (simp add: afterSubReducers_def demoDeps_def)


text \<open>The module evaluated on the concrete instance.\<close>

lemma demo_update_both:
  "urlDiff (DEFAULT_RANGE (demoDeps demoUrlBoth)) (Some (parseUrlState (demoDeps demoUrlBoth) ''u''))
     (Some (getUrlStateFromPaneState (demoDeps demoUrlBoth) (explore demoStore left)))
   = \<lparr>datasource_d = False, queries_d = True, range_d = True\<rparr>"
  by (simp add: urlDiff_def isEqual_def demoDeps_def demoUrlBoth_def demoStore_def
      demoPane_def demoGetUrlStateFromPaneState_def demoDefaultRange_def demoQuery_def)

lemma demo_refresh_both:
  "refreshExplore (demoDeps demoUrlBoth) left ''u'' demoStore =
     [updateTime left (Some \<lparr>from_raw = ''now-6h'', to_raw = ''now''\<rparr>),
      Act (setQueriesAction left
        [\<lparr>refId = Some ''A'', key = Some ''Q-0'', expr = ''rate(up[5m])''\<rparr>]),
      runQueries left]"
  by (simp add: refreshExplore_def Let_def urlDiff_def isEqual_def demoDeps_def demoUrlBoth_def demoStore_def
      demoPane_def demoGetUrlStateFromPaneState_def demoDefaultRange_def demoQuery_def demoGenerate_def)




section \<open>Properties of \<open>urlDiff\<close>\<close>

lemma orElse_bind_resolved:
  "orElse (Option.bind s range_u) dr = resolvedRange dr s"
  by (cases s) (auto simp: resolvedRange_def split: option.splits)

text \<open>
  Claim C8. \<open>urlDiff\<close> is a total function without effects: it is defined on every pair
  of arguments, absent ones included. With both arguments absent all three components
  are false. Its range component is true exactly when the two ranges differ after the
  default range has been substituted for an absent one on either side; in particular two
  states without a range compare equal on the range.
\<close>

theorem urlDiff_absent_and_range:
  "urlDiff dr None None = \<lparr>datasource_d = False, queries_d = False, range_d = False\<rparr>
   \<and> range_d (urlDiff dr old cur) = (resolvedRange dr cur \<noteq> resolvedRange dr old)
   \<and> \<not> range_d (urlDiff dr (Some (u\<lparr>range_u := None\<rparr>)) (Some (v\<lparr>range_u := None\<rparr>)))
   \<and> \<not> range_d (urlDiff dr None (Some (v\<lparr>range_u := None\<rparr>)))
   \<and> range_d (urlDiff dr (Some (u\<lparr>range_u := None\<rparr>)) (Some (v\<lparr>range_u := Some r\<rparr>)))
       = (r \<noteq> dr)"
  by (simp add: urlDiff_def isEqual_def orElse_bind_resolved resolvedRange_def)

text \<open>
  Claim C9. Comparing a view state with itself reports no difference: all three
  components of \<open>urlDiff S S\<close> are false, for every view state \<open>S\<close>.
\<close>

theorem urlDiff_reflexive:
  "urlDiff dr (Some S) (Some S) = \<lparr>datasource_d = False, queries_d = False, range_d = False\<rparr>"
  by (simp add: urlDiff_def isEqual_def)

section \<open>Properties of \<open>paneReducer\<close>\<close>

text \<open>
  Claim C1. On an \<open>initializeExplore\<close> action the new \<open>queryKeys\<close> are to be computed
  from the new queries and the new data source instance of the action. The reducer
  computes them from the new queries and the instance of the state the sub-reducers
  returned, that is the instance the pane was bound to before. On the pane bound to data
  source \<open>A\<close>, initialized again with data source \<open>B\<close>, the new state carries instance
  \<open>B\<close> with the key \<open>A-0\<close>, where the keys of the query for \<open>B\<close> are \<open>B-0\<close>.
\<close>
theorem paneReducer_initialize_keys_of_previous_instance:
  "queryKeys (paneReducer d (Some s) (initializeExploreAction p)) =
     getQueryKeys d (queries_p p)
       (datasourceInstance (afterSubReducers d s (initializeExploreAction p)))
   \<and> datasourceInstance (paneReducer (demoDeps demoUrlRange) (Some demoPane)
        (initializeExploreAction demoInitB)) = Some \<lparr>ds_name = ''B''\<rparr>
   \<and> queryKeys (paneReducer (demoDeps demoUrlRange) (Some demoPane)
        (initializeExploreAction demoInitB)) = [''A-0'']
   \<and> getQueryKeys (demoDeps demoUrlRange) (queries_p demoInitB)
        (datasourceInstance_p demoInitB) = [''B-0'']"
  by (simp add: paneReducer_initialize_fields)
     (simp add: demoDeps_def demoPane_def demoInitB_def demoGetQueryKeys_def)



text \<open>
  Claim C10. On a \<open>changeSize\<close> action the pane-level step of the reducer replaces
  \<open>containerWidth\<close> by the width of the payload and nothing else: the result is the
  state the sub-reducers returned with that one field updated. Where the sub-reducers
  return the state unchanged for this action, every other field of the result is the
  field of the state the reducer was given; the height of the payload is not read, so
  two payloads that differ in the height only give the same result.
\<close>

theorem paneReducer_changeSize_frame:
  "paneReducer d (Some s) (changeSizeAction p) =
     (afterSubReducers d s (changeSizeAction p))\<lparr>containerWidth := width p\<rparr>
   \<and> (afterSubReducers d s (changeSizeAction p) = s \<longrightarrow>
        paneReducer d (Some s) (changeSizeAction p) = s\<lparr>containerWidth := width p\<rparr>)
   \<and> (afterSubReducers d s (changeSizeAction (p\<lparr>height := h\<rparr>))
         = afterSubReducers d s (changeSizeAction p) \<longrightarrow>
        paneReducer d (Some s) (changeSizeAction (p\<lparr>height := h\<rparr>))
         = paneReducer d (Some s) (changeSizeAction p))"
  by (simp add: paneReducer_Some Let_def)

theorem paneReducer_changeSize_frame_witness:
  "afterSubReducers (demoDeps demoUrlRange) demoPane
     (changeSizeAction \<lparr>exploreId = left, width = 1024, height = 600\<rparr>) = demoPane
   \<and> paneReducer (demoDeps demoUrlRange) (Some demoPane)
       (changeSizeAction \<lparr>exploreId = left, width = 1024, height = 600\<rparr>)
      = demoPane\<lparr>containerWidth := 1024\<rparr>
   \<and> paneReducer (demoDeps demoUrlRange) (Some demoPane)
       (changeSizeAction \<lparr>exploreId = left, width = 1024, height = 50\<rparr>)
      = demoPane\<lparr>containerWidth := 1024\<rparr>"
  using paneReducer_changeSize_frame
      [of "demoDeps demoUrlRange" demoPane
          "\<lparr>exploreId = left, width = 1024, height = 600\<rparr>" 50]
  by simp

section \<open>Properties of \<open>initializeExplore\<close>\<close>

text \<open>
  Claim C6. With no data source configured \<open>initializeExplore\<close> completes without an
  error and without resolving the name: it dispatches the \<open>initializeExplore\<close> action
  with no instance and an empty history, the time update and the rich history update; the
  pane the reducer returns for that action has no data source instance and
  \<open>datasourceMissing\<close> set. With a data source configured, the thunk completes exactly
  when the loader resolves: it then dispatches the \<open>initializeExplore\<close> action with the
  loader's instance and history, the time update, a query run if and only if that
  instance is present, and the rich history update; when the loader rejects, the thunk
  fails with the loader's error and dispatches nothing. So in every completed run a query
  run is dispatched if and only if the instance the \<open>initializeExplore\<close> action carries
  is present, and then once.
\<close>

theorem initializeExplore_without_datasources:
  "(getExploreDatasources d = [] \<longrightarrow>
      initializeExplore d eid datasourceName qs rng w bridge origin st =
        Inr [Act (initializeExploreAction
               \<lparr>exploreId_p = eid, containerWidth_p = w, eventBridge_p = bridge,
                queries_p = qs, range_p = rng, history_p = [],
                datasourceInstance_p = None, originPanelId_p = origin\<rparr>),
             updateTime eid None,
             Act (richHistoryUpdatedAction (getRichHistory d))]
      \<and> datasourceInstance (paneReducer d pane (initializeExploreAction
               \<lparr>exploreId_p = eid, containerWidth_p = w, eventBridge_p = bridge,
                queries_p = qs, range_p = rng, history_p = [],
                datasourceInstance_p = None, originPanelId_p = origin\<rparr>)) = None
      \<and> datasourceMissing (paneReducer d pane (initializeExploreAction
               \<lparr>exploreId_p = eid, containerWidth_p = w, eventBridge_p = bridge,
                queries_p = qs, range_p = rng, history_p = [],
                datasourceInstance_p = None, originPanelId_p = origin\<rparr>)))
   \<and> (getExploreDatasources d \<noteq> []
        \<and> loadAndInitDatasource d (orgId (user st)) datasourceName = Inr loadResult \<longrightarrow>
      initializeExplore d eid datasourceName qs rng w bridge origin st =
        Inr ([Act (initializeExploreAction
                \<lparr>exploreId_p = eid, containerWidth_p = w, eventBridge_p = bridge,
                 queries_p = qs, range_p = rng, history_p = history_l loadResult,
                 datasourceInstance_p = instance_l loadResult, originPanelId_p = origin\<rparr>),
              updateTime eid None]
             @ (if instance_l loadResult \<noteq> None then [runQueries eid] else [])
             @ [Act (richHistoryUpdatedAction (getRichHistory d))])
      \<and> (runQueries eid \<in> set (projr
             (initializeExplore d eid datasourceName qs rng w bridge origin st)))
          = (instance_l loadResult \<noteq> None))
   \<and> (getExploreDatasources d \<noteq> []
        \<and> loadAndInitDatasource d (orgId (user st)) datasourceName = Inl e \<longrightarrow>
      initializeExplore d eid datasourceName qs rng w bridge origin st = Inl e)
   \<and> (initializeExplore d eid datasourceName qs rng w bridge origin st = Inr tr \<longrightarrow>
        (\<exists>payload. hd tr = Act (initializeExploreAction payload)
           \<and> (runQueries eid \<in> set tr) = (datasourceInstance_p payload \<noteq> None)
           \<and> filter isRunQueries tr
               = (if datasourceInstance_p payload \<noteq> None then [runQueries eid] else [])
           \<and> datasourceInstance_p payload =
               (if length (getExploreDatasources d) \<ge> 1
                then (case loadAndInitDatasource d (orgId (user st)) datasourceName of
                        Inl e \<Rightarrow> None | Inr loadResult \<Rightarrow> instance_l loadResult)
                else None)))"
proof (intro conjI impI)
  assume "getExploreDatasources d = []"
  then show "initializeExplore d eid datasourceName qs rng w bridge origin st =
        Inr [Act (initializeExploreAction
               \<lparr>exploreId_p = eid, containerWidth_p = w, eventBridge_p = bridge,
                queries_p = qs, range_p = rng, history_p = [],
                datasourceInstance_p = None, originPanelId_p = origin\<rparr>),
             updateTime eid None,
             Act (richHistoryUpdatedAction (getRichHistory d))]"
    by (simp add: initializeExplore_def)
next
  assume cfg: "getExploreDatasources d \<noteq> []
        \<and> loadAndInitDatasource d (orgId (user st)) datasourceName = Inr loadResult"
  then have len: "1 \<le> length (getExploreDatasources d)"
    by (cases "getExploreDatasources d") simp_all
  show run: "initializeExplore d eid datasourceName qs rng w bridge origin st =
        Inr ([Act (initializeExploreAction
                \<lparr>exploreId_p = eid, containerWidth_p = w, eventBridge_p = bridge,
                 queries_p = qs, range_p = rng, history_p = history_l loadResult,
                 datasourceInstance_p = instance_l loadResult, originPanelId_p = origin\<rparr>),
              updateTime eid None]
             @ (if instance_l loadResult \<noteq> None then [runQueries eid] else [])
             @ [Act (richHistoryUpdatedAction (getRichHistory d))])"
    using cfg len by (simp add: initializeExplore_def)
  show "(runQueries eid \<in> set (projr
             (initializeExplore d eid datasourceName qs rng w bridge origin st)))
          = (instance_l loadResult \<noteq> None)"
    by (simp add: run)
next
  assume cfg: "getExploreDatasources d \<noteq> []
        \<and> loadAndInitDatasource d (orgId (user st)) datasourceName = Inl e"
  then have len: "1 \<le> length (getExploreDatasources d)"
    by (cases "getExploreDatasources d") simp_all
  show "initializeExplore d eid datasourceName qs rng w bridge origin st = Inl e"
    using cfg len by (simp add: initializeExplore_def)
next
  assume "initializeExplore d eid datasourceName qs rng w bridge origin st = Inr tr"
  then show "\<exists>payload. hd tr = Act (initializeExploreAction payload)
           \<and> (runQueries eid \<in> set tr) = (datasourceInstance_p payload \<noteq> None)
           \<and> filter isRunQueries tr
               = (if datasourceInstance_p payload \<noteq> None then [runQueries eid] else [])
           \<and> datasourceInstance_p payload =
               (if length (getExploreDatasources d) \<ge> 1
                then (case loadAndInitDatasource d (orgId (user st)) datasourceName of
                        Inl e \<Rightarrow> None | Inr loadResult \<Rightarrow> instance_l loadResult)
                else None)"
    by (auto simp: initializeExplore_def Let_def split: sum.splits if_splits)
qed (simp_all add: paneReducer_initialize_fields)

theorem initializeExplore_without_datasources_witness:
  "getExploreDatasources ((demoDeps demoUrlRange)\<lparr>getExploreDatasources := []\<rparr>) = []
   \<and> initializeExplore ((demoDeps demoUrlRange)\<lparr>getExploreDatasources := []\<rparr>) left ''A''
        [demoQuery] (range_s demoPane) 800 1 Undefined demoStore =
      Inr [Act (initializeExploreAction
             \<lparr>exploreId_p = left, containerWidth_p = 800, eventBridge_p = 1,
              queries_p = [demoQuery], range_p = range_s demoPane, history_p = [],
              datasourceInstance_p = None, originPanelId_p = Undefined\<rparr>),
           updateTime left None,
           Act (richHistoryUpdatedAction [])]
   \<and> datasourceInstance (paneReducer ((demoDeps demoUrlRange)\<lparr>getExploreDatasources := []\<rparr>)
        (Some demoPane) (initializeExploreAction
             \<lparr>exploreId_p = left, containerWidth_p = 800, eventBridge_p = 1,
              queries_p = [demoQuery], range_p = range_s demoPane, history_p = [],
              datasourceInstance_p = None, originPanelId_p = Undefined\<rparr>)) = None
   \<and> datasourceMissing (paneReducer ((demoDeps demoUrlRange)\<lparr>getExploreDatasources := []\<rparr>)
        (Some demoPane) (initializeExploreAction
             \<lparr>exploreId_p = left, containerWidth_p = 800, eventBridge_p = 1,
              queries_p = [demoQuery], range_p = range_s demoPane, history_p = [],
              datasourceInstance_p = None, originPanelId_p = Undefined\<rparr>))
   \<and> getExploreDatasources (demoDeps demoUrlRange) \<noteq> []
   \<and> loadAndInitDatasource (demoDeps demoUrlRange) (orgId (user demoStore)) ''B''
       = Inr \<lparr>instance_l = Some \<lparr>ds_name = ''B''\<rparr>, history_l = []\<rparr>
   \<and> initializeExplore (demoDeps demoUrlRange) left ''B''
        [demoQuery] (range_s demoPane) 800 1 Undefined demoStore =
      Inr [Act (initializeExploreAction
             \<lparr>exploreId_p = left, containerWidth_p = 800, eventBridge_p = 1,
              queries_p = [demoQuery], range_p = range_s demoPane, history_p = [],
              datasourceInstance_p = Some \<lparr>ds_name = ''B''\<rparr>,
              originPanelId_p = Undefined\<rparr>),
           updateTime left None,
           runQueries left,
           Act (richHistoryUpdatedAction [])]
   \<and> runQueries left \<in> set (projr (initializeExplore (demoDeps demoUrlRange) left ''B''
        [demoQuery] (range_s demoPane) 800 1 Undefined demoStore))
   \<and> loadAndInitDatasource
        ((demoDeps demoUrlRange)\<lparr>loadAndInitDatasource := (\<lambda>_ _. Inl ''unreachable'')\<rparr>)
        (orgId (user demoStore)) ''B'' = Inl ''unreachable''
   \<and> initializeExplore
        ((demoDeps demoUrlRange)\<lparr>loadAndInitDatasource := (\<lambda>_ _. Inl ''unreachable'')\<rparr>)
        left ''B'' [demoQuery] (range_s demoPane) 800 1 Undefined demoStore
       = Inl ''unreachable''"
proof -
  have none: "getExploreDatasources ((demoDeps demoUrlRange)\<lparr>getExploreDatasources := []\<rparr>) = []"
    by simp
  have some: "getExploreDatasources (demoDeps demoUrlRange) \<noteq> []"
    "getExploreDatasources
       ((demoDeps demoUrlRange)\<lparr>loadAndInitDatasource := (\<lambda>_ _. Inl ''unreachable'')\<rparr>) \<noteq> []"
    by (simp_all add: demoDeps_def)
  have loaded: "loadAndInitDatasource (demoDeps demoUrlRange) (orgId (user demoStore)) ''B''
       = Inr \<lparr>instance_l = Some \<lparr>ds_name = ''B''\<rparr>, history_l = []\<rparr>"
    by (simp add: demoDeps_def)
  have rejected: "loadAndInitDatasource
        ((demoDeps demoUrlRange)\<lparr>loadAndInitDatasource := (\<lambda>_ _. Inl ''unreachable'')\<rparr>)
        (orgId (user demoStore)) ''B'' = Inl ''unreachable''"
    by simp
  have rich: "getRichHistory (demoDeps demoUrlRange) = []"
    "getRichHistory ((demoDeps demoUrlRange)\<lparr>getExploreDatasources := []\<rparr>) = []"
    by (simp_all add: demoDeps_def)
  note at_none = initializeExplore_without_datasources
        [where d = "(demoDeps demoUrlRange)\<lparr>getExploreDatasources := []\<rparr>" and eid = left
           and datasourceName = "''A''" and qs = "[demoQuery]" and rng = "range_s demoPane"
           and w = 800 and bridge = 1 and origin = Undefined and st = demoStore
           and pane = "Some demoPane"]
  note at_loaded = initializeExplore_without_datasources
        [where d = "demoDeps demoUrlRange" and eid = left
           and datasourceName = "''B''" and qs = "[demoQuery]" and rng = "range_s demoPane"
           and w = 800 and bridge = 1 and origin = Undefined and st = demoStore
           and loadResult = "\<lparr>instance_l = Some \<lparr>ds_name = ''B''\<rparr>, history_l = []\<rparr>"]
  note at_rejected = initializeExplore_without_datasources
        [where d = "(demoDeps demoUrlRange)
                      \<lparr>loadAndInitDatasource := (\<lambda>_ _. Inl ''unreachable'')\<rparr>"
           and eid = left
           and datasourceName = "''B''" and qs = "[demoQuery]" and rng = "range_s demoPane"
           and w = 800 and bridge = 1 and origin = Undefined and st = demoStore
           and e = "''unreachable''"]
  show ?thesis
    using at_none at_loaded at_rejected none some loaded rejected
    by (simp add: rich)
qed

section \<open>Properties of \<open>refreshExplore\<close>\<close>

text \<open>
  Claim C2. On an initialized pane, when the computed difference has the data source
  unchanged and the queries or the range changed, \<open>refreshExplore\<close> dispatches exactly
  one query run, also when both changed.
\<close>
theorem refreshExplore_runs_queries_once:
  assumes "initialized (explore st eid)"
    and "update = urlDiff (DEFAULT_RANGE d) (Some (parseUrlState d urlQuery))
                    (Some (getUrlStateFromPaneState d (explore st eid)))"
    and "\<not> datasource_d update"
    and "queries_d update \<or> range_d update"
  shows "filter isRunQueries (refreshExplore d eid urlQuery st) = [runQueries eid]
         \<and> count_list (refreshExplore d eid urlQuery st) (runQueries eid) = 1"
  using assms by (auto simp: refreshExplore_def Let_def)

theorem refreshExplore_runs_queries_once_witness:
  "initialized (explore demoStore left)
   \<and> \<not> datasource_d (urlDiff (DEFAULT_RANGE (demoDeps demoUrlBoth))
          (Some (parseUrlState (demoDeps demoUrlBoth) ''u''))
          (Some (getUrlStateFromPaneState (demoDeps demoUrlBoth) (explore demoStore left))))
   \<and> queries_d (urlDiff (DEFAULT_RANGE (demoDeps demoUrlBoth))
          (Some (parseUrlState (demoDeps demoUrlBoth) ''u''))
          (Some (getUrlStateFromPaneState (demoDeps demoUrlBoth) (explore demoStore left))))
   \<and> range_d (urlDiff (DEFAULT_RANGE (demoDeps demoUrlBoth))
          (Some (parseUrlState (demoDeps demoUrlBoth) ''u''))
          (Some (getUrlStateFromPaneState (demoDeps demoUrlBoth) (explore demoStore left))))
   \<and> filter isRunQueries (refreshExplore (demoDeps demoUrlBoth) left ''u'' demoStore)
       = [runQueries left]
   \<and> count_list (refreshExplore (demoDeps demoUrlBoth) left ''u'' demoStore)
        (runQueries left) = 1"
proof -
  have init: "initialized (explore demoStore left)"
    by (simp add: demoStore_def demoPane_def)
  have upd: "\<lparr>datasource_d = False, queries_d = True, range_d = True\<rparr> =
      urlDiff (DEFAULT_RANGE (demoDeps demoUrlBoth))
        (Some (parseUrlState (demoDeps demoUrlBoth) ''u''))
        (Some (getUrlStateFromPaneState (demoDeps demoUrlBoth) (explore demoStore left)))"
    by (simp add: demo_update_both)
  have ds: "\<not> datasource_d \<lparr>datasource_d = False, queries_d = True, range_d = True\<rparr>"
    by simp
  have qr: "queries_d \<lparr>datasource_d = False, queries_d = True, range_d = True\<rparr>
            \<or> range_d \<lparr>datasource_d = False, queries_d = True, range_d = True\<rparr>"
    by simp
  show ?thesis
    using refreshExplore_runs_queries_once [OF init upd ds qr] init
    by (simp add: demo_update_both)
qed




text \<open>
  Claim C4, as stated, makes the two corrections exclusive: with the range changed, the
  queries would not be replaced. For the URL that changes both the range and the query
  of the pane, the data source being the same, \<open>refreshExplore\<close> dispatches the time
  update and the replacement of the queries, then the query run.
\<close>

theorem refreshExplore_range_and_queries_counterexample:
  "initialized (explore demoStore left)
   \<and> urlDiff (DEFAULT_RANGE (demoDeps demoUrlBoth))
        (Some (parseUrlState (demoDeps demoUrlBoth) ''u''))
        (Some (getUrlStateFromPaneState (demoDeps demoUrlBoth) (explore demoStore left)))
       = \<lparr>datasource_d = False, queries_d = True, range_d = True\<rparr>
   \<and> refreshExplore (demoDeps demoUrlBoth) left ''u'' demoStore =
       [updateTime left (Some \<lparr>from_raw = ''now-6h'', to_raw = ''now''\<rparr>),
        Act (setQueriesAction left
          [\<lparr>refId = Some ''A'', key = Some ''Q-0'', expr = ''rate(up[5m])''\<rparr>]),
        runQueries left]
   \<and> Act (setQueriesAction left
          [\<lparr>refId = Some ''A'', key = Some ''Q-0'', expr = ''rate(up[5m])''\<rparr>])
       \<in> set (refreshExplore (demoDeps demoUrlBoth) left ''u'' demoStore)"
  by (simp add: demo_update_both demo_refresh_both) (simp add: demoStore_def demoPane_def)

text \<open>
  Claim C4, amended. With the data source unchanged, the two corrections are independent:
  the time update carrying the new raw range is dispatched exactly when the range
  differs, the replacement of the queries by the list the loop built is dispatched
  exactly when the queries differ, in this order and both when both differ; a query run
  follows when either was dispatched.
\<close>

theorem refreshExplore_range_and_queries_independent:
  assumes "initialized (explore st eid)"
    and "urlState = parseUrlState d urlQuery"
    and "update = urlDiff (DEFAULT_RANGE d) (Some urlState)
                    (Some (getUrlStateFromPaneState d (explore st eid)))"
    and "\<not> datasource_d update"
    and "rng = getTimeRangeFromUrl d (range_u urlState) (getTimeZone d (user st))"
    and "refreshQueries =
           refreshQueriesLoop (generateNewKeyAndAddRefIdIfMissing d) (queries_u urlState) 0 []"
  shows "refreshExplore d eid urlQuery st =
           (if range_d update then [updateTime eid (Some (raw rng))] else [])
           @ (if queries_d update then [Act (setQueriesAction eid refreshQueries)] else [])
           @ (if queries_d update \<or> range_d update then [runQueries eid] else [])
         \<and> (updateTime eid (Some (raw rng)) \<in> set (refreshExplore d eid urlQuery st))
             = range_d update
         \<and> (Act (setQueriesAction eid refreshQueries) \<in> set (refreshExplore d eid urlQuery st))
             = queries_d update"
  using assms by (simp add: refreshExplore_def Let_def)

theorem refreshExplore_range_and_queries_independent_witness:
  "initialized (explore demoStore left)
   \<and> \<not> datasource_d (urlDiff (DEFAULT_RANGE (demoDeps demoUrlBoth)) (Some demoUrlBoth)
          (Some (getUrlStateFromPaneState (demoDeps demoUrlBoth) (explore demoStore left))))
   \<and> refreshExplore (demoDeps demoUrlBoth) left ''u'' demoStore =
       [updateTime left (Some \<lparr>from_raw = ''now-6h'', to_raw = ''now''\<rparr>),
        Act (setQueriesAction left
          [\<lparr>refId = Some ''A'', key = Some ''Q-0'', expr = ''rate(up[5m])''\<rparr>]),
        runQueries left]"
proof -
  have init: "initialized (explore demoStore left)"
    by (simp add: demoStore_def demoPane_def)
  have parsed: "demoUrlBoth = parseUrlState (demoDeps demoUrlBoth) ''u''"
    by (simp add: demoDeps_def)
  have upd: "urlDiff (DEFAULT_RANGE (demoDeps demoUrlBoth)) (Some demoUrlBoth)
        (Some (getUrlStateFromPaneState (demoDeps demoUrlBoth) (explore demoStore left)))
      = \<lparr>datasource_d = False, queries_d = True, range_d = True\<rparr>"
    using demo_update_both by (simp add: parsed [symmetric])
  have ds: "\<not> datasource_d (urlDiff (DEFAULT_RANGE (demoDeps demoUrlBoth)) (Some demoUrlBoth)
          (Some (getUrlStateFromPaneState (demoDeps demoUrlBoth) (explore demoStore left))))"
    by (simp add: upd)
  have rng: "raw (getTimeRangeFromUrl (demoDeps demoUrlBoth) (range_u demoUrlBoth)
           (getTimeZone (demoDeps demoUrlBoth) (user demoStore)))
         = \<lparr>from_raw = ''now-6h'', to_raw = ''now''\<rparr>"
    by (simp add: demoDeps_def demoUrlBoth_def)
  have qs: "refreshQueriesLoop (generateNewKeyAndAddRefIdIfMissing (demoDeps demoUrlBoth))
           (queries_u demoUrlBoth) 0 []
         = [\<lparr>refId = Some ''A'', key = Some ''Q-0'', expr = ''rate(up[5m])''\<rparr>]"
    by (simp add: demoDeps_def demoUrlBoth_def demoQuery_def demoGenerate_def)
  show ?thesis
    using refreshExplore_range_and_queries_independent [OF init parsed refl ds refl refl]
      init ds
    by (simp add: upd rng qs)
qed

text \<open>
  Claim C5. On a pane that is not initialized \<open>refreshExplore\<close> does nothing, whatever
  the URL: it dispatches nothing, so the store it leaves is the store it found.
\<close>
theorem refreshExplore_uninitialized_noop:
  assumes "\<not> initialized (explore st eid)"
  shows "refreshExplore d eid urlQuery st = []
         \<and> runThunk dispatch (refreshExplore d eid urlQuery) st = st"
  using assms by (simp add: refreshExplore_def runThunk_def)

theorem refreshExplore_uninitialized_noop_witness:
  "\<not> initialized (explore demoStore right)
   \<and> refreshExplore (demoDeps demoUrlDatasource) right ''u'' demoStore = []
   \<and> runThunk (\<lambda>s x. s\<lparr>explore := (\<lambda>_. demoPane)\<rparr>)
        (refreshExplore (demoDeps demoUrlDatasource) right ''u'') demoStore = demoStore"
proof -
  have un: "\<not> initialized (explore demoStore right)"
    by (simp add: demoStore_def)
  show ?thesis
    using refreshExplore_uninitialized_noop [OF un] un by simp
qed

end
